theory Spec2Isabelle
  imports Main "HOL-Library.AList"
begin

section \<open>Identifiers and time\<close>

text \<open>
  Piece ids, socket ids and room codes are strings. \<open>Date.now()\<close> is a number of
  milliseconds; it is passed to every operation that reads the clock.
\<close>

type_synonym pieceId = string
type_synonym playerId = string
type_synonym roomCode = string

section \<open>The in-memory token authority (index.js, tokenAuthority)\<close>

text \<open>
  \<open>tokenAuthority.tokens\<close> is a plain object \<open>{}\<close> used as a dictionary from piece
  id to \<open>{owner, timestamp}\<close>. Its own properties are modelled as an association
  list in insertion order: assignment to a key replaces the entry in place or appends
  it, \<open>delete\<close> removes it, and \<open>Object.keys\<close> lists the keys. (JavaScript lists
  keys that look like array indices before the others; no statement below depends on
  the order of the keys.)

  One key is not an own property. \<open>__proto__\<close> is an accessor inherited from
  \<open>Object.prototype\<close>: assigning a token to \<open>tokens['__proto__']\<close> makes that token
  the prototype of the object and creates no own key, reading the key returns the
  prototype, \<open>delete\<close> finds no own property and removes nothing, and
  \<open>Object.keys\<close> does not list it. The field \<open>prototype\<close> holds the token installed
  that way, \<open>None\<close> while the prototype is still \<open>Object.prototype\<close>.

  Reading any other key that is not an own property yields \<open>undefined\<close> or an inherited
  value that is not a token (a method of \<open>Object.prototype\<close>, \<open>Object.prototype\<close>
  itself, or the owner string or timestamp number of a prototype token). Such a value
  has neither \<open>timestamp\<close> nor \<open>owner\<close>: \<open>Date.now() - undefined > 30000\<close> and
  \<open>undefined === playerId\<close> are both false, so the check and the release answer
  false and change nothing, as they do for \<open>undefined\<close>. \<open>tokens_get\<close> therefore
  returns \<open>None\<close> for all of them.
\<close>

record token =
  owner :: playerId
  timestamp :: int

record token_map =
  entries :: "(pieceId \<times> token) list"
  prototype :: "token option"

definition tokens_get :: "token_map \<Rightarrow> pieceId \<Rightarrow> token option" where
  "tokens_get ts pieceId =
     (if pieceId = ''__proto__'' then prototype ts else map_of (entries ts) pieceId)"

definition tokens_set :: "pieceId \<Rightarrow> token \<Rightarrow> token_map \<Rightarrow> token_map" where
  "tokens_set pieceId tok ts =
     (if pieceId = ''__proto__'' then ts\<lparr>prototype := Some tok\<rparr>
      else ts\<lparr>entries := AList.update pieceId tok (entries ts)\<rparr>)"

definition tokens_delete :: "pieceId \<Rightarrow> token_map \<Rightarrow> token_map" where
  "tokens_delete pieceId ts =
     (if pieceId = ''__proto__'' then ts
      else ts\<lparr>entries := AList.delete pieceId (entries ts)\<rparr>)"

definition tokens_keys :: "token_map \<Rightarrow> pieceId list" where
  "tokens_keys ts = map fst (entries ts)"

definition grantToken :: "int \<Rightarrow> pieceId \<Rightarrow> playerId \<Rightarrow> token_map \<Rightarrow> bool \<times> token_map" where
  "grantToken now pieceId playerId ts =
     (True, tokens_set pieceId \<lparr>owner = playerId, timestamp = now\<rparr> ts)"

definition hasAuthority :: "int \<Rightarrow> pieceId \<Rightarrow> playerId \<Rightarrow> token_map \<Rightarrow> bool \<times> token_map" where
  "hasAuthority now pieceId playerId ts =
     (case tokens_get ts pieceId of
        None \<Rightarrow> (False, ts)
      | Some tok \<Rightarrow>
          if now - timestamp tok > 30000 then (False, tokens_delete pieceId ts)
          else (owner tok = playerId, ts))"

definition releaseToken :: "pieceId \<Rightarrow> playerId \<Rightarrow> token_map \<Rightarrow> bool \<times> token_map" where
  "releaseToken pieceId playerId ts =
     (case tokens_get ts pieceId of
        None \<Rightarrow> (False, ts)
      | Some tok \<Rightarrow>
          if owner tok \<noteq> playerId then (False, ts)
          else (True, tokens_delete pieceId ts))"

section \<open>Events sent to clients\<close>

text \<open>
  What a handler sends is a list of addressed events, in the order of the calls:
  \<open>socket.emit\<close> reaches the sender, \<open>socket.to(room).emit\<close> the other members
  of a room, \<open>io.to(room).emit\<close> every member of a room, \<open>socket.broadcast.emit\<close>
  every connection but the sender and \<open>io.emit\<close> every connection. Coordinates are
  passed through unread, so their number type plays no part.
\<close>

datatype target =
    ToSender playerId
  | ToRoomOthers roomCode playerId
  | ToRoom roomCode
  | ToOthers playerId
  | ToAll

datatype event =
    ErrorEvent string
  | TokenGranted pieceId
  | TokenDenied pieceId
  | PieceLocked pieceId playerId
  | PieceUnlocked pieceId
  | PieceDragged pieceId int int playerId
  | PieceMoved pieceId int int playerId
  | PieceAdded pieceId int int "string option" playerId
  | PieceRemoved pieceId playerId
  | PlayerLeft playerId

type_synonym out = "target \<times> event"

section \<open>Pieces and the room files (dataStore)\<close>

record piece =
  piece_id :: pieceId
  piece_x :: int
  piece_y :: int
  piece_assetUrl :: "string option"
  piece_owner :: playerId

text \<open>
  \<open>Array.prototype.findIndex\<close>: the index of the first element that satisfies the
  test, \<open>None\<close> standing for the result -1.
\<close>

fun findIndex :: "('a \<Rightarrow> bool) \<Rightarrow> 'a list \<Rightarrow> nat option" where
  "findIndex P [] = None"
| "findIndex P (x # xs) = (if P x then Some 0 else map_option Suc (findIndex P xs))"

text \<open>
  \<open>dataStore\<close> keeps one JSON file per room, \<open>room-<code>.json\<close>. The files are
  modelled as a map from room code to the room stored under it (a missing or unreadable
  file is \<open>None\<close>, for which \<open>getRoom\<close> returns null), with a flag telling whether
  writes succeed: \<open>saveRoom\<close> catches a failed write and returns false. The map is
  keyed by the room code as a plain name. The code builds the file name with
  \<open>path.join\<close>, which normalises it, so two codes that contain path separators can
  name one file; the map does not follow that, and no statement below says that the
  rooms of two different codes are independent of each other.
\<close>

record room =
  roomCode :: roomCode
  pieces :: "piece list"
  createdAt :: string

record dataStore =
  files :: "roomCode \<rightharpoonup> room"
  writable :: bool

definition getRoom :: "roomCode \<Rightarrow> dataStore \<Rightarrow> room option" where
  "getRoom code ds = files ds code"

definition saveRoom :: "room \<Rightarrow> dataStore \<Rightarrow> bool \<times> dataStore" where
  "saveRoom rm ds =
     (if writable ds then (True, ds\<lparr>files := (files ds)(roomCode rm \<mapsto> rm)\<rparr>)
      else (False, ds))"

section \<open>The room server (index.js)\<close>

text \<open>
  The state of the process is the token map and the room files. Each connection's
  handlers close over \<open>socket.id\<close> and the variable \<open>currentRoom\<close>, which only the
  join-room handler assigns; the handlers below take both as arguments, together with
  the reading of the clock. \<open>inRoom\<close> is the test \<open>!currentRoom\<close>: null and the
  empty string both count as not being in a room.
\<close>

record server =
  tokens :: token_map
  store :: dataStore

definition inRoom :: "roomCode option \<Rightarrow> roomCode option" where
  "inRoom currentRoom =
     (case currentRoom of None \<Rightarrow> None | Some r \<Rightarrow> if r = [] then None else Some r)"

definition request_token ::
  "int \<Rightarrow> playerId \<Rightarrow> roomCode option \<Rightarrow> pieceId \<Rightarrow> server \<Rightarrow> server \<times> out list" where
  "request_token now sid currentRoom pieceId s =
     (case inRoom currentRoom of
        None \<Rightarrow> (s, [(ToSender sid, ErrorEvent ''Not in a room'')])
      | Some r \<Rightarrow>
          (case grantToken now pieceId sid (tokens s) of
             (granted, ts) \<Rightarrow>
               if granted
               then (s\<lparr>tokens := ts\<rparr>,
                     [(ToSender sid, TokenGranted pieceId),
                      (ToRoomOthers r sid, PieceLocked pieceId sid)])
               else (s\<lparr>tokens := ts\<rparr>, [(ToSender sid, TokenDenied pieceId)])))"

definition release_token ::
  "playerId \<Rightarrow> roomCode option \<Rightarrow> pieceId \<Rightarrow> server \<Rightarrow> server \<times> out list" where
  "release_token sid currentRoom pieceId s =
     (case inRoom currentRoom of
        None \<Rightarrow> (s, [(ToSender sid, ErrorEvent ''Not in a room'')])
      | Some r \<Rightarrow>
          (case releaseToken pieceId sid (tokens s) of
             (released, ts) \<Rightarrow>
               (s\<lparr>tokens := ts\<rparr>,
                if released then [(ToRoomOthers r sid, PieceUnlocked pieceId)] else [])))"

definition move_piece ::
  "int \<Rightarrow> playerId \<Rightarrow> roomCode option \<Rightarrow> pieceId \<Rightarrow> int \<Rightarrow> int \<Rightarrow> string option
     \<Rightarrow> server \<Rightarrow> server \<times> out list" where
  "move_piece now sid currentRoom pieceId x y assetUrl s =
     (case inRoom currentRoom of
        None \<Rightarrow> (s, [(ToSender sid, ErrorEvent ''Not in a room'')])
      | Some r \<Rightarrow>
          (case hasAuthority now pieceId sid (tokens s) of
             (authority, ts) \<Rightarrow>
               if \<not> authority
               then (s\<lparr>tokens := ts\<rparr>,
                     [(ToSender sid, ErrorEvent ''No authority to move this piece'')])
               else
                 (case getRoom r (store s) of
                    None \<Rightarrow> (s\<lparr>tokens := ts\<rparr>, [(ToSender sid, ErrorEvent ''Game not found'')])
                  | Some game \<Rightarrow>
                      (let game' =
                         (case findIndex (\<lambda>p. piece_id p = pieceId) (pieces game) of
                            None \<Rightarrow>
                              game\<lparr>pieces := pieces game @
                                [\<lparr>piece_id = pieceId, piece_x = x, piece_y = y,
                                  piece_assetUrl = assetUrl, piece_owner = sid\<rparr>]\<rparr>
                          | Some pieceIndex \<Rightarrow>
                              game\<lparr>pieces := (pieces game)
                                [pieceIndex := (pieces game ! pieceIndex)\<lparr>piece_x := x, piece_y := y\<rparr>]\<rparr>)
                       in (s\<lparr>tokens := ts, store := snd (saveRoom game' (store s))\<rparr>,
                           [(ToRoom r, PieceMoved pieceId x y sid)])))))"

definition add_piece ::
  "int \<Rightarrow> playerId \<Rightarrow> roomCode option \<Rightarrow> pieceId \<Rightarrow> string option \<Rightarrow> int \<Rightarrow> int
     \<Rightarrow> server \<Rightarrow> server \<times> out list" where
  "add_piece now sid currentRoom pieceId assetUrl x y s =
     (case inRoom currentRoom of
        None \<Rightarrow> (s, [(ToSender sid, ErrorEvent ''Not in a room'')])
      | Some r \<Rightarrow>
          (case getRoom r (store s) of
             None \<Rightarrow> (s, [(ToSender sid, ErrorEvent ''Game not found'')])
           | Some game \<Rightarrow>
               (let game' = game\<lparr>pieces := pieces game @
                       [\<lparr>piece_id = pieceId, piece_x = x, piece_y = y,
                         piece_assetUrl = assetUrl, piece_owner = sid\<rparr>]\<rparr>
                in (s\<lparr>tokens := snd (grantToken now pieceId sid (tokens s)),
                      store := snd (saveRoom game' (store s))\<rparr>,
                    [(ToRoom r, PieceAdded pieceId x y assetUrl sid)]))))"

definition remove_piece ::
  "int \<Rightarrow> playerId \<Rightarrow> roomCode option \<Rightarrow> pieceId \<Rightarrow> server \<Rightarrow> server \<times> out list" where
  "remove_piece now sid currentRoom pieceId s =
     (case inRoom currentRoom of
        None \<Rightarrow> (s, [(ToSender sid, ErrorEvent ''Not in a room'')])
      | Some r \<Rightarrow>
          (case hasAuthority now pieceId sid (tokens s) of
             (authority, ts) \<Rightarrow>
               if \<not> authority
               then (s\<lparr>tokens := ts\<rparr>,
                     [(ToSender sid, ErrorEvent ''No authority to remove this piece'')])
               else
                 (case getRoom r (store s) of
                    None \<Rightarrow> (s\<lparr>tokens := ts\<rparr>, [(ToSender sid, ErrorEvent ''Game not found'')])
                  | Some game \<Rightarrow>
                      (let game' = game\<lparr>pieces := filter (\<lambda>p. piece_id p \<noteq> pieceId) (pieces game)\<rparr>
                       in (s\<lparr>tokens := snd (releaseToken pieceId sid ts),
                             store := snd (saveRoom game' (store s))\<rparr>,
                           [(ToRoom r, PieceRemoved pieceId sid)])))))"

text \<open>
  The disconnect handler walks \<open>Object.keys(tokenAuthority.tokens)\<close>, the own keys
  as listed before the loop, and reads \<open>tokens[pieceId].owner\<close> in the map as it is
  at that step. Reading \<open>.owner\<close> of a missing entry would throw; the handler has no
  \<open>try\<close>, so the model returns the error.
\<close>

datatype js_error = TypeError

fun release_owned ::
  "playerId \<Rightarrow> roomCode option \<Rightarrow> pieceId list \<Rightarrow> token_map \<Rightarrow> js_error + (token_map \<times> out list)" where
  "release_owned sid currentRoom [] ts = Inr (ts, [])"
| "release_owned sid currentRoom (pieceId # ks) ts =
     (case tokens_get ts pieceId of
        None \<Rightarrow> Inl TypeError
      | Some tok \<Rightarrow>
          if owner tok = sid
          then (case release_owned sid currentRoom ks (snd (releaseToken pieceId sid ts)) of
                  Inl e \<Rightarrow> Inl e
                | Inr (ts', outs) \<Rightarrow>
                    Inr (ts',
                         (case inRoom currentRoom of
                            None \<Rightarrow> []
                          | Some r \<Rightarrow> [(ToRoom r, PieceUnlocked pieceId)]) @ outs))
          else release_owned sid currentRoom ks ts)"

definition disconnect ::
  "playerId \<Rightarrow> roomCode option \<Rightarrow> server \<Rightarrow> js_error + (server \<times> out list)" where
  "disconnect sid currentRoom s =
     (case release_owned sid currentRoom (tokens_keys (tokens s)) (tokens s) of
        Inl e \<Rightarrow> Inl e
      | Inr (ts, outs) \<Rightarrow>
          Inr (s\<lparr>tokens := ts\<rparr>,
               outs @ (case inRoom currentRoom of
                         None \<Rightarrow> []
                       | Some r \<Rightarrow> [(ToRoomOthers r sid, PlayerLeft sid)])))"

text \<open>
  The handlers that grant, release or check a token are registered on the socket by
  event name; \<open>on_event\<close> is that table, and \<open>request_piece\<close> is the piece id the
  event carries.
\<close>

datatype token_request =
    RequestToken pieceId
  | ReleaseToken pieceId
  | MovePiece pieceId int int "string option"
  | AddPiece pieceId "string option" int int
  | RemovePiece pieceId


fun on_event ::
  "int \<Rightarrow> playerId \<Rightarrow> roomCode option \<Rightarrow> token_request \<Rightarrow> server \<Rightarrow> server \<times> out list" where
  "on_event now sid currentRoom (RequestToken pieceId) s = request_token now sid currentRoom pieceId s"
| "on_event now sid currentRoom (ReleaseToken pieceId) s = release_token sid currentRoom pieceId s"
| "on_event now sid currentRoom (MovePiece pieceId x y assetUrl) s =
     move_piece now sid currentRoom pieceId x y assetUrl s"
| "on_event now sid currentRoom (AddPiece pieceId assetUrl x y) s =
     add_piece now sid currentRoom pieceId assetUrl x y s"
| "on_event now sid currentRoom (RemovePiece pieceId) s = remove_piece now sid currentRoom pieceId s"

section \<open>The Redis token service (tokenService.js)\<close>

text \<open>
  The single-board server keeps its tokens in Redis under the key \<open>token:<pieceId>\<close>,
  written with \<open>SET key owner EX 30\<close>. Redis itself is outside the code: it is
  modelled by the map of the string keys that are live (a key that the server has
  expired is no longer in it) and by whether the connection answers; a command issued
  while it does not answer rejects, which is the exception the service's \<open>catch\<close>
  blocks turn into the result false.
\<close>

record redis =
  live :: "string \<rightharpoonup> string"
  connected :: bool

datatype redis_error = ConnectionError

definition redis_get :: "string \<Rightarrow> redis \<Rightarrow> redis_error + string option" where
  "redis_get key r = (if connected r then Inr (live r key) else Inl ConnectionError)"

definition redis_set_ex :: "string \<Rightarrow> string \<Rightarrow> nat \<Rightarrow> redis \<Rightarrow> redis_error + redis" where
  "redis_set_ex key v seconds r =
     (if connected r then Inr (r\<lparr>live := (live r)(key \<mapsto> v)\<rparr>) else Inl ConnectionError)"


definition TOKEN_EXPIRY :: nat where
  "TOKEN_EXPIRY = 30"

definition TOKEN_KEY_PREFIX :: string where
  "TOKEN_KEY_PREFIX = ''token:''"

definition tokenKey :: "pieceId \<Rightarrow> string" where
  "tokenKey pieceId = TOKEN_KEY_PREFIX @ pieceId"

definition tokenService_grantToken :: "pieceId \<Rightarrow> playerId \<Rightarrow> redis \<Rightarrow> bool \<times> redis" where
  "tokenService_grantToken pieceId playerId r =
     (case redis_set_ex (tokenKey pieceId) playerId TOKEN_EXPIRY r of
        Inl err \<Rightarrow> (False, r)
      | Inr r' \<Rightarrow> (True, r'))"

definition tokenService_hasAuthority :: "pieceId \<Rightarrow> playerId \<Rightarrow> redis \<Rightarrow> bool" where
  "tokenService_hasAuthority pieceId playerId r =
     (case redis_get (tokenKey pieceId) r of
        Inl err \<Rightarrow> False
      | Inr tokenOwner \<Rightarrow> tokenOwner = Some playerId)"


section \<open>The piece manager (pieceManager.js)\<close>

text \<open>
  The piece manager reads and writes the board through the state manager, which keeps
  snapshots in a Redis sorted set with a pointer to the current one. Its two entry
  points are taken as they are used: \<open>getGameState\<close> returns the pieces of the current
  state (it catches every failure and returns an empty board), \<open>saveGameState\<close>
  writes a new snapshot at the current time and reports success. The functions below
  take them as arguments over any store \<open>'st\<close>, so whatever is proved holds for every
  state manager. \<open>updates\<close> is the object spread over the stored piece.
\<close>

type_synonym 'st getGameState = "'st \<Rightarrow> piece list"
type_synonym 'st saveGameState = "int \<Rightarrow> piece list \<Rightarrow> 'st \<Rightarrow> bool \<times> 'st"

definition updatePiece ::
  "'st getGameState \<Rightarrow> 'st saveGameState \<Rightarrow> int \<Rightarrow> pieceId \<Rightarrow> (piece \<Rightarrow> piece) \<Rightarrow> 'st \<Rightarrow> bool \<times> 'st" where
  "updatePiece getGameState saveGameState now pieceId updates st =
     (let state = getGameState st in
      case findIndex (\<lambda>p. piece_id p = pieceId) state of
        None \<Rightarrow> (False, st)
      | Some pieceIndex \<Rightarrow>
          saveGameState now (state[pieceIndex := updates (state ! pieceIndex)]) st)"

section \<open>The single-board server (src/socket/handlers.js)\<close>

text \<open>
  The state is the Redis token keys and the board store. A handler is run to its end
  before the next event: the interleaving of other events at its \<open>await\<close> points is
  not modelled.
\<close>

record 'st board_server =
  redis :: redis
  game :: 'st

definition handlers_request_token ::
  "playerId \<Rightarrow> pieceId \<Rightarrow> 'st board_server \<Rightarrow> 'st board_server \<times> out list" where
  "handlers_request_token sid pieceId s =
     (case tokenService_grantToken pieceId sid (redis s) of
        (granted, r) \<Rightarrow>
          if granted
          then (s\<lparr>redis := r\<rparr>,
                [(ToSender sid, TokenGranted pieceId), (ToOthers sid, PieceLocked pieceId sid)])
          else (s\<lparr>redis := r\<rparr>, [(ToSender sid, TokenDenied pieceId)]))"


definition handlers_move_piece ::
  "'st getGameState \<Rightarrow> 'st saveGameState \<Rightarrow> int \<Rightarrow> playerId \<Rightarrow> pieceId \<Rightarrow> int \<Rightarrow> int
     \<Rightarrow> 'st board_server \<Rightarrow> 'st board_server \<times> out list" where
  "handlers_move_piece getGameState saveGameState now sid pieceId x y s =
     (if \<not> tokenService_hasAuthority pieceId sid (redis s)
      then (s, [(ToSender sid, ErrorEvent ''No authority to move this piece'')])
      else (s\<lparr>game := snd (updatePiece getGameState saveGameState now pieceId
                              (\<lambda>p. p\<lparr>piece_x := x, piece_y := y\<rparr>) (game s))\<rparr>,
            [(ToAll, PieceMoved pieceId x y sid)]))"



section \<open>Observations used in the statements\<close>

text \<open>
  \<open>holds sid ts k\<close>: reading key \<open>k\<close> of the token map yields a token whose owner
  is \<open>sid\<close>, expired or not. \<open>unlocked_count k outs\<close>: how many piece-unlocked
  events for piece \<open>k\<close> the list of sent events contains, whoever they are addressed
  to. \<open>own_keys ts\<close>: the representation is that of an object, with distinct own keys
  among which \<open>__proto__\<close> does not occur.
\<close>

definition holds :: "playerId \<Rightarrow> token_map \<Rightarrow> pieceId \<Rightarrow> bool" where
  "holds sid ts k = (case tokens_get ts k of None \<Rightarrow> False | Some tok \<Rightarrow> owner tok = sid)"

definition own_keys :: "token_map \<Rightarrow> bool" where
  "own_keys ts = (distinct (tokens_keys ts) \<and> ''__proto__'' \<notin> set (tokens_keys ts))"


section \<open>Example states\<close>

text \<open>
  Concrete states for the instances below: a token map in which X holds piece p1 since
  time 0; one in which X's token was granted on the key \<open>__proto__\<close>; a room server with one room r holding that piece; a second room server with
  two rooms and two tokens; and a single-board server whose store is simply the list of
  pieces.
\<close>

abbreviation held_by_X :: token_map where
  "held_by_X \<equiv> \<lparr>entries = [(''p1'', \<lparr>owner = ''X'', timestamp = 0\<rparr>)], prototype = None\<rparr>"

abbreviation proto_by_X :: token_map where
  "proto_by_X \<equiv> \<lparr>entries = [], prototype = Some \<lparr>owner = ''X'', timestamp = 0\<rparr>\<rparr>"

abbreviation piece1 :: piece where
  "piece1 \<equiv> \<lparr>piece_id = ''p1'', piece_x = 10, piece_y = 20,
              piece_assetUrl = Some ''/a.png'', piece_owner = ''X''\<rparr>"

abbreviation room_example :: server where
  "room_example \<equiv>
     \<lparr>tokens = held_by_X,
      store = \<lparr>files = [''r'' \<mapsto> \<lparr>roomCode = ''r'', pieces = [piece1], createdAt = ''t0''\<rparr>],
               writable = True\<rparr>\<rparr>"

abbreviation board_example :: "piece list board_server" where
  "board_example \<equiv>
     \<lparr>redis = \<lparr>live = [tokenKey ''p1'' \<mapsto> ''X''], connected = True\<rparr>, game = [piece1]\<rparr>"

abbreviation two_rooms :: server where
  "two_rooms \<equiv>
     \<lparr>tokens = \<lparr>entries = [(''p1'', \<lparr>owner = ''X'', timestamp = 0\<rparr>),
                           (''p2'', \<lparr>owner = ''X'', timestamp = 0\<rparr>)],
                prototype = None\<rparr>,
      store = \<lparr>files = [''r'' \<mapsto> \<lparr>roomCode = ''r'', pieces = [piece1], createdAt = ''t0''\<rparr>,
                        ''roomA'' \<mapsto> \<lparr>roomCode = ''roomA'', pieces = [], createdAt = ''t1''\<rparr>],
               writable = True\<rparr>\<rparr>"

section \<open>Token authority: checking\<close>

lemma tokens_get_delete:
  "p \<noteq> ''__proto__'' \<Longrightarrow>
   tokens_get (ts\<lparr>entries := AList.delete p (entries ts)\<rparr>) = (tokens_get ts)(p := None)"
  by (rule ext) (simp add: tokens_get_def delete_conv')


text \<open>
  C1, as the code has it. \<open>hasAuthority\<close> answers true exactly when reading the key
  yields a token, its owner is the asker and \<open>now - timestamp\<close> is at most 30000 ms:
  the test in the code is \<open>Date.now() - token.timestamp > 30000\<close>, so a token that is
  exactly 30 seconds old is still valid. When a token exists and is older than that, the
  answer is false whoever asks, and for every piece id that is an own key (every id but
  \<open>__proto__\<close>) the token is removed from the map, every other entry staying as it
  was. When no token is older than that the map is returned unchanged.
\<close>

theorem hasAuthority_iff_live_owner:
  "(fst (hasAuthority now p c ts) \<longleftrightarrow>
      (\<exists>tok. tokens_get ts p = Some tok \<and> owner tok = c \<and> now - timestamp tok \<le> 30000))
   \<and> (\<forall>tok. tokens_get ts p = Some tok \<and> 30000 < now - timestamp tok \<longrightarrow>
          \<not> fst (hasAuthority now p c ts))
   \<and> (\<forall>tok. tokens_get ts p = Some tok \<and> 30000 < now - timestamp tok \<and> p \<noteq> ''__proto__'' \<longrightarrow>
          snd (hasAuthority now p c ts) = ts\<lparr>entries := AList.delete p (entries ts)\<rparr>
          \<and> tokens_get (snd (hasAuthority now p c ts)) = (tokens_get ts)(p := None))
   \<and> ((\<forall>tok. tokens_get ts p = Some tok \<longrightarrow> now - timestamp tok \<le> 30000) \<longrightarrow>
          snd (hasAuthority now p c ts) = ts)"
  by (auto simp: hasAuthority_def tokens_delete_def tokens_get_delete split: option.splits)

theorem hasAuthority_iff_live_owner_witness:
  "fst (hasAuthority 30000 ''p1'' ''X'' held_by_X)
   \<and> \<not> fst (hasAuthority 30001 ''p1'' ''X'' held_by_X)
   \<and> ''p1'' \<noteq> ''__proto__''
   \<and> snd (hasAuthority 30001 ''p1'' ''X'' held_by_X) = \<lparr>entries = [], prototype = None\<rparr>
   \<and> snd (hasAuthority 30000 ''p1'' ''Y'' held_by_X) = held_by_X"
proof -
  have g: "tokens_get held_by_X ''p1'' = Some \<lparr>owner = ''X'', timestamp = 0\<rparr>"
    by (simp add: tokens_get_def)
  have n: "''p1'' \<noteq> ''__proto__''" by simp
  from hasAuthority_iff_live_owner [of 30000 "''p1''" "''X''" held_by_X, THEN conjunct1] g
  have a: "fst (hasAuthority 30000 ''p1'' ''X'' held_by_X)" by simp
  from hasAuthority_iff_live_owner [of 30001 "''p1''" "''X''" held_by_X] g n
  have b: "\<not> fst (hasAuthority 30001 ''p1'' ''X'' held_by_X)"
    and c: "snd (hasAuthority 30001 ''p1'' ''X'' held_by_X) = \<lparr>entries = [], prototype = None\<rparr>"
    by simp_all
  from hasAuthority_iff_live_owner [of 30000 "''p1''" "''Y''" held_by_X] g
  have d: "snd (hasAuthority 30000 ''p1'' ''Y'' held_by_X) = held_by_X" by simp
  show ?thesis by (intro conjI a b n c d)
qed

text \<open>
  The claim's bound \<open>now - grantedAt < TTL\<close> fails at the boundary: for a token granted
  at time 0 and checked by its owner at time 30000, \<open>now - grantedAt\<close> is not less than
  30000, yet the check answers true and the token stays in the map.
\<close>

theorem hasAuthority_at_ttl_counterexample:
  "hasAuthority 30000 ''p1'' ''X'' held_by_X = (True, held_by_X)
   \<and> \<not> ((30000::int) - timestamp \<lparr>owner = ''X'', timestamp = 0\<rparr> < 30000)"
  by (simp add: hasAuthority_def tokens_get_def)

text \<open>
  On the key \<open>__proto__\<close> the check answers as on any other key, but its
  \<open>delete\<close> finds no own property: the map is never changed, so an expired token
  granted on that key is not evicted.
\<close>

lemma hasAuthority_proto_unchanged:
  "snd (hasAuthority now ''__proto__'' c ts) = ts"
  by (simp add: hasAuthority_def tokens_delete_def split: option.splits)

text \<open>
  C2, mutual exclusion. Against one token map at one instant, two different connections
  never both have authority over the same piece.
\<close>

theorem hasAuthority_mutual_exclusion:
  "c1 \<noteq> c2 \<Longrightarrow> \<not> (fst (hasAuthority now p c1 ts) \<and> fst (hasAuthority now p c2 ts))"
  by (auto simp: hasAuthority_def split: option.splits if_splits)

theorem hasAuthority_mutual_exclusion_witness:
  "''X'' \<noteq> ''Y''
   \<and> fst (hasAuthority 5 ''p1'' ''X'' held_by_X)
   \<and> \<not> fst (hasAuthority 5 ''p1'' ''Y'' held_by_X)"
proof -
  have ne: "''X'' \<noteq> ''Y''" by simp
  have own: "fst (hasAuthority 5 ''p1'' ''X'' held_by_X)"
    by (simp add: hasAuthority_def tokens_get_def)
  from hasAuthority_mutual_exclusion [OF ne, of 5 "''p1''" held_by_X] own
  have other: "\<not> fst (hasAuthority 5 ''p1'' ''Y'' held_by_X)"
    by simp
  show ?thesis by (intro conjI ne own other)
qed

section \<open>Token authority: releasing and granting\<close>

text \<open>
  C3, as the code has it. \<open>releaseToken\<close> does not read the clock: it answers true
  exactly when reading the key yields a token whose owner is the caller, whether or not
  the token has expired. With no token, or a token owned by another connection, it
  answers false and leaves the map unchanged. When it answers true for a piece id that
  is an own key (every id but \<open>__proto__\<close>), the token is deleted and every other
  entry stays as it was.
\<close>

theorem releaseToken_iff_owner:
  "(fst (releaseToken p c ts) \<longleftrightarrow> (\<exists>tok. tokens_get ts p = Some tok \<and> owner tok = c))
   \<and> (\<not> fst (releaseToken p c ts) \<longrightarrow> snd (releaseToken p c ts) = ts)
   \<and> (fst (releaseToken p c ts) \<and> p \<noteq> ''__proto__'' \<longrightarrow>
         snd (releaseToken p c ts) = ts\<lparr>entries := AList.delete p (entries ts)\<rparr>
         \<and> tokens_get (snd (releaseToken p c ts)) = (tokens_get ts)(p := None))"
  by (auto simp: releaseToken_def tokens_delete_def tokens_get_delete split: option.splits)

theorem releaseToken_iff_owner_witness:
  "fst (releaseToken ''p1'' ''X'' held_by_X)
   \<and> ''p1'' \<noteq> ''__proto__''
   \<and> snd (releaseToken ''p1'' ''X'' held_by_X) = \<lparr>entries = [], prototype = None\<rparr>
   \<and> \<not> fst (releaseToken ''p1'' ''Y'' held_by_X)
   \<and> snd (releaseToken ''p1'' ''Y'' held_by_X) = held_by_X
   \<and> \<not> fst (releaseToken ''p2'' ''X'' held_by_X)
   \<and> snd (releaseToken ''p2'' ''X'' held_by_X) = held_by_X"
proof -
  have g: "tokens_get held_by_X ''p1'' = Some \<lparr>owner = ''X'', timestamp = 0\<rparr>"
    "tokens_get held_by_X ''p2'' = None"
    by (simp_all add: tokens_get_def)
  have n: "''p1'' \<noteq> ''__proto__''" by simp
  from releaseToken_iff_owner [of "''p1''" "''X''" held_by_X] g n
  have a: "fst (releaseToken ''p1'' ''X'' held_by_X)"
    and b: "snd (releaseToken ''p1'' ''X'' held_by_X) = \<lparr>entries = [], prototype = None\<rparr>"
    by simp_all
  from releaseToken_iff_owner [of "''p1''" "''Y''" held_by_X] g
  have c: "\<not> fst (releaseToken ''p1'' ''Y'' held_by_X)"
    and d: "snd (releaseToken ''p1'' ''Y'' held_by_X) = held_by_X"
    by simp_all
  from releaseToken_iff_owner [of "''p2''" "''X''" held_by_X] g
  have e: "\<not> fst (releaseToken ''p2'' ''X'' held_by_X)"
    and f: "snd (releaseToken ''p2'' ''X'' held_by_X) = held_by_X"
    by simp_all
  show ?thesis by (intro conjI a n b c d e f)
qed

text \<open>
  The claim's third case fails: a token granted to X at time 0 has expired at time 40000
  (the check answers false for X), yet X's release of it answers true and deletes it.
\<close>

theorem releaseToken_expired_counterexample:
  "\<not> fst (hasAuthority 40000 ''p1'' ''X'' held_by_X)
   \<and> releaseToken ''p1'' ''X'' held_by_X = (True, \<lparr>entries = [], prototype = None\<rparr>)"
  by (simp add: hasAuthority_def releaseToken_def tokens_get_def tokens_delete_def)

text \<open>
  A token granted on the key \<open>__proto__\<close> is not removed by its release: the release
  answers true and the map is unchanged, so the owner keeps authority.
\<close>

lemma releaseToken_proto_unchanged:
  "snd (releaseToken ''__proto__'' c ts) = ts"
  by (simp add: releaseToken_def tokens_delete_def split: option.splits)

lemma releaseToken_proto_example:
  "releaseToken ''__proto__'' ''X'' proto_by_X = (True, proto_by_X)
   \<and> fst (hasAuthority 5 ''__proto__'' ''X'' (snd (releaseToken ''__proto__'' ''X'' proto_by_X)))"
  by (simp add: releaseToken_def hasAuthority_def tokens_get_def tokens_delete_def)





section \<open>Rooms and the token map\<close>










section \<open>Moving and dragging pieces\<close>

text \<open>
  C6. A move-piece event from a connection whose check on the piece is false is answered
  by exactly one event, an error addressed to the sender (so no piece-moved is sent),
  and the stored pieces are unchanged. In the room server the error is either the
  not-in-a-room or the no-authority message; in the single-board server the whole state
  is unchanged.
\<close>

theorem move_piece_unauthorized:
  "(\<not> fst (hasAuthority now pieceId sid (tokens s)) \<longrightarrow>
      (\<exists>msg. snd (move_piece now sid currentRoom pieceId x y assetUrl s) = [(ToSender sid, ErrorEvent msg)])
      \<and> store (fst (move_piece now sid currentRoom pieceId x y assetUrl s)) = store s)
   \<and> (\<not> tokenService_hasAuthority pieceId sid (redis b) \<longrightarrow>
        handlers_move_piece getGameState saveGameState now sid pieceId x y b
          = (b, [(ToSender sid, ErrorEvent ''No authority to move this piece'')]))"
  by (simp add: move_piece_def handlers_move_piece_def split: option.splits prod.splits)

theorem move_piece_unauthorized_witness:
  "\<not> fst (hasAuthority 5 ''p1'' ''Y'' (tokens room_example))
   \<and> (\<exists>msg. snd (move_piece 5 ''Y'' (Some ''r'') ''p1'' 99 99 None room_example)
              = [(ToSender ''Y'', ErrorEvent msg)])
   \<and> store (fst (move_piece 5 ''Y'' (Some ''r'') ''p1'' 99 99 None room_example)) = store room_example
   \<and> \<not> tokenService_hasAuthority ''p1'' ''Y'' (redis board_example)
   \<and> handlers_move_piece (\<lambda>st. st) (\<lambda>now ps st. (True, ps)) 5 ''Y'' ''p1'' 99 99 board_example
       = (board_example, [(ToSender ''Y'', ErrorEvent ''No authority to move this piece'')])"
proof -
  have a: "\<not> fst (hasAuthority 5 ''p1'' ''Y'' (tokens room_example))"
    by (simp add: hasAuthority_def tokens_get_def)
  have b: "\<not> tokenService_hasAuthority ''p1'' ''Y'' (redis board_example)"
    by (simp add: tokenService_hasAuthority_def redis_get_def)
  from move_piece_unauthorized [of 5 "''p1''" "''Y''" room_example "Some ''r''" 99 99 None
      board_example "\<lambda>st. st" "\<lambda>now ps st. (True, ps)"] a b
  show ?thesis by simp
qed

text \<open>
  C8, as the code has it. In the single-board server an authorized move of a piece id
  that matches no piece makes \<open>updatePiece\<close> return false without saving: the board is
  unchanged (piece-moved is still sent to everyone). The room server does not go through
  \<open>updatePiece\<close>: when no piece has the id, it appends a new piece with that id, the
  given coordinates and the sender as owner to the room's pieces and saves the room.
\<close>

theorem move_unknown_piece:
  "(findIndex (\<lambda>p. piece_id p = pieceId) (getGameState st) = None \<longrightarrow>
      updatePiece getGameState saveGameState now pieceId updates st = (False, st))
   \<and> (tokenService_hasAuthority pieceId sid (redis b)
        \<and> findIndex (\<lambda>p. piece_id p = pieceId) (getGameState (game b)) = None \<longrightarrow>
        handlers_move_piece getGameState saveGameState now sid pieceId x y b
          = (b, [(ToAll, PieceMoved pieceId x y sid)]))
   \<and> (inRoom currentRoom = Some r \<and> fst (hasAuthority now pieceId sid (tokens s))
        \<and> getRoom r (store s) = Some g
        \<and> findIndex (\<lambda>p. piece_id p = pieceId) (pieces g) = None
        \<and> writable (store s) \<longrightarrow>
        files (store (fst (move_piece now sid currentRoom pieceId x y assetUrl s)))
          = (files (store s))(roomCode g \<mapsto>
               g\<lparr>pieces := pieces g @
                   [\<lparr>piece_id = pieceId, piece_x = x, piece_y = y,
                     piece_assetUrl = assetUrl, piece_owner = sid\<rparr>]\<rparr>)
        \<and> snd (move_piece now sid currentRoom pieceId x y assetUrl s)
          = [(ToRoom r, PieceMoved pieceId x y sid)])"
  by (simp add: updatePiece_def handlers_move_piece_def move_piece_def saveRoom_def
      split: prod.splits)

theorem move_unknown_piece_witness:
  "findIndex (\<lambda>p. piece_id p = ''p9'') [piece1] = None
   \<and> updatePiece (\<lambda>st. st) (\<lambda>now ps st. (True, ps)) 5 ''p9'' (\<lambda>p. p\<lparr>piece_x := 1, piece_y := 2\<rparr>) [piece1]
       = (False, [piece1])
   \<and> tokenService_hasAuthority ''p9'' ''X'' \<lparr>live = [tokenKey ''p9'' \<mapsto> ''X''], connected = True\<rparr>
   \<and> handlers_move_piece (\<lambda>st. st) (\<lambda>now ps st. (True, ps)) 5 ''X'' ''p9'' 1 2
        \<lparr>redis = \<lparr>live = [tokenKey ''p9'' \<mapsto> ''X''], connected = True\<rparr>, game = [piece1]\<rparr>
       = (\<lparr>redis = \<lparr>live = [tokenKey ''p9'' \<mapsto> ''X''], connected = True\<rparr>, game = [piece1]\<rparr>,
          [(ToAll, PieceMoved ''p9'' 1 2 ''X'')])
   \<and> inRoom (Some ''r'') = Some ''r''
   \<and> fst (hasAuthority 5 ''p2'' ''X'' (tokens two_rooms))
   \<and> getRoom ''r'' (store two_rooms) = Some \<lparr>roomCode = ''r'', pieces = [piece1], createdAt = ''t0''\<rparr>
   \<and> findIndex (\<lambda>p. piece_id p = ''p2'') [piece1] = None
   \<and> writable (store two_rooms)
   \<and> snd (move_piece 5 ''X'' (Some ''r'') ''p2'' 1 2 None two_rooms)
       = [(ToRoom ''r'', PieceMoved ''p2'' 1 2 ''X'')]"
proof -
  have f: "findIndex (\<lambda>p. piece_id p = ''p9'') [piece1] = None"
    "findIndex (\<lambda>p. piece_id p = ''p2'') [piece1] = None"
    by simp_all
  have t: "tokenService_hasAuthority ''p9'' ''X'' \<lparr>live = [tokenKey ''p9'' \<mapsto> ''X''], connected = True\<rparr>"
    by (simp add: tokenService_hasAuthority_def redis_get_def)
  have r: "inRoom (Some ''r'') = Some ''r''" by (simp add: inRoom_def)
  have h: "fst (hasAuthority 5 ''p2'' ''X'' (tokens two_rooms))" by (simp add: hasAuthority_def tokens_get_def)
  have g: "getRoom ''r'' (store two_rooms) = Some \<lparr>roomCode = ''r'', pieces = [piece1], createdAt = ''t0''\<rparr>"
    by (simp add: getRoom_def)
  have w: "writable (store two_rooms)" by simp
  note board = move_unknown_piece [of "''p9''" "\<lambda>st. st" "[piece1]" "\<lambda>now ps st. (True, ps)" 5
      "\<lambda>p. p\<lparr>piece_x := 1, piece_y := 2\<rparr>" "''X''"
      "\<lparr>redis = \<lparr>live = [tokenKey ''p9'' \<mapsto> ''X''], connected = True\<rparr>, game = [piece1]\<rparr>" 1 2]
  note room = move_unknown_piece [of "''p2''" "\<lambda>st. st" "[piece1]" "\<lambda>now ps st. (True, ps)" 5
      "\<lambda>p. p" "''X''" board_example 1 2 "Some ''r''" "''r''" two_rooms
      "\<lparr>roomCode = ''r'', pieces = [piece1], createdAt = ''t0''\<rparr>" None]
  from board f(1) t
  have one: "updatePiece (\<lambda>st. st) (\<lambda>now ps st. (True, ps)) 5 ''p9'' (\<lambda>p. p\<lparr>piece_x := 1, piece_y := 2\<rparr>) [piece1]
       = (False, [piece1])"
    and two: "handlers_move_piece (\<lambda>st. st) (\<lambda>now ps st. (True, ps)) 5 ''X'' ''p9'' 1 2
        \<lparr>redis = \<lparr>live = [tokenKey ''p9'' \<mapsto> ''X''], connected = True\<rparr>, game = [piece1]\<rparr>
       = (\<lparr>redis = \<lparr>live = [tokenKey ''p9'' \<mapsto> ''X''], connected = True\<rparr>, game = [piece1]\<rparr>,
          [(ToAll, PieceMoved ''p9'' 1 2 ''X'')])"
    by simp_all
  from room r h g f(2) w
  have three: "snd (move_piece 5 ''X'' (Some ''r'') ''p2'' 1 2 None two_rooms)
       = [(ToRoom ''r'', PieceMoved ''p2'' 1 2 ''X'')]"
    by simp
  show ?thesis by (intro conjI f t one two r h g w three)
qed

text \<open>
  In the room server an authorized move of an id that is not on the board creates the
  piece: X holds the token of p2, room r contains only p1, and after X's move of p2 the
  room contains p1 and a new piece p2.
\<close>

theorem move_piece_creates_piece_counterexample:
  "fst (hasAuthority 5 ''p2'' ''X'' (tokens two_rooms))
   \<and> map_option pieces (getRoom ''r'' (store two_rooms)) = Some [piece1]
   \<and> findIndex (\<lambda>p. piece_id p = ''p2'') [piece1] = None
   \<and> map_option pieces
        (getRoom ''r'' (store (fst (move_piece 5 ''X'' (Some ''r'') ''p2'' 1 2 None two_rooms))))
       = Some [piece1, \<lparr>piece_id = ''p2'', piece_x = 1, piece_y = 2,
                        piece_assetUrl = None, piece_owner = ''X''\<rparr>]"
  by (simp add: hasAuthority_def tokens_get_def move_piece_def inRoom_def getRoom_def saveRoom_def)



section \<open>Requesting a token\<close>

text \<open>
  C10, as the code has it. The room server never sends token-denied: a request from a
  connection that is in a room is answered by token-granted to the requester and
  piece-locked to the rest of the room, and a request from a connection that is in no
  room by an error. The single-board server answers token-granted while the token store
  answers, and token-denied exactly when the write to the store fails.
\<close>

theorem request_token_outcomes:
  "(\<forall>r. inRoom currentRoom = Some r \<longrightarrow>
      snd (request_token now sid currentRoom p s)
        = [(ToSender sid, TokenGranted p), (ToRoomOthers r sid, PieceLocked p sid)])
   \<and> (inRoom currentRoom = None \<longrightarrow>
        snd (request_token now sid currentRoom p s) = [(ToSender sid, ErrorEvent ''Not in a room'')])
   \<and> snd (handlers_request_token sid p b)
       = (if connected (redis b)
          then [(ToSender sid, TokenGranted p), (ToOthers sid, PieceLocked p sid)]
          else [(ToSender sid, TokenDenied p)])"
  by (simp add: request_token_def grantToken_def handlers_request_token_def
      tokenService_grantToken_def redis_set_ex_def)

theorem request_token_outcomes_witness:
  "inRoom (Some ''r'') = Some ''r''
   \<and> snd (request_token 5 ''Y'' (Some ''r'') ''p1'' room_example)
       = [(ToSender ''Y'', TokenGranted ''p1''), (ToRoomOthers ''r'' ''Y'', PieceLocked ''p1'' ''Y'')]
   \<and> inRoom None = None
   \<and> snd (request_token 5 ''Y'' None ''p1'' room_example) = [(ToSender ''Y'', ErrorEvent ''Not in a room'')]
   \<and> snd (handlers_request_token ''Y'' ''p1'' board_example)
       = [(ToSender ''Y'', TokenGranted ''p1''), (ToOthers ''Y'', PieceLocked ''p1'' ''Y'')]"
proof -
  have r: "inRoom (Some ''r'') = Some ''r''" "inRoom None = None"
    by (simp_all add: inRoom_def)
  from request_token_outcomes [of "Some ''r''" 5 "''Y''" "''p1''" room_example board_example]
    request_token_outcomes [of None 5 "''Y''" "''p1''" room_example board_example] r
  show ?thesis by simp
qed

text \<open>
  The token-denied branch is reachable in the single-board server: with the store not
  answering, \<open>tokenService.grantToken\<close> catches the failure and returns false.
\<close>

theorem token_denied_counterexample:
  "snd (handlers_request_token ''X'' ''p1''
          \<lparr>redis = \<lparr>live = Map.empty, connected = False\<rparr>, game = [piece1]\<rparr>)
     = [(ToSender ''X'', TokenDenied ''p1'')]"
  by (simp add: handlers_request_token_def tokenService_grantToken_def redis_set_ex_def)


section \<open>Disconnecting\<close>

text \<open>
  The token map of a running server is the representation of an object: it starts empty
  and the three operations keep the own keys distinct and free of \<open>__proto__\<close>.
\<close>

lemma own_keys_empty: "own_keys \<lparr>entries = [], prototype = None\<rparr>"
  by (simp add: own_keys_def tokens_keys_def)

lemma tokens_delete_own_keys:
  assumes "own_keys ts"
  shows "own_keys (tokens_delete p ts)"
proof (cases "p = ''__proto__''")
  case True
  with assms show ?thesis by (simp add: tokens_delete_def)
next
  case False
  from assms have "distinct (map fst (AList.delete p (entries ts)))"
    by (simp add: own_keys_def tokens_keys_def distinct_delete)
  moreover from assms dom_delete_subset [of p "entries ts"]
  have "''__proto__'' \<notin> fst ` set (AList.delete p (entries ts))"
    by (auto simp: own_keys_def tokens_keys_def)
  ultimately show ?thesis
    using False by (simp add: own_keys_def tokens_keys_def tokens_delete_def)
qed

lemma grantToken_own_keys:
  assumes "own_keys ts"
  shows "own_keys (snd (grantToken now p c ts))"
proof (cases "p = ''__proto__''")
  case True
  with assms show ?thesis
    by (simp add: grantToken_def tokens_set_def own_keys_def tokens_keys_def)
next
  case False
  let ?es = "AList.update p \<lparr>owner = c, timestamp = now\<rparr> (entries ts)"
  from assms have "distinct (map fst ?es)"
    by (simp add: own_keys_def tokens_keys_def distinct_update)
  moreover from assms False have "''__proto__'' \<notin> fst ` set ?es"
    by (simp add: own_keys_def tokens_keys_def dom_update)
  ultimately show ?thesis
    using False by (simp add: own_keys_def tokens_keys_def grantToken_def tokens_set_def)
qed

lemma hasAuthority_own_keys: "own_keys ts \<Longrightarrow> own_keys (snd (hasAuthority now p c ts))"
  by (simp add: hasAuthority_def tokens_delete_own_keys split: option.splits)

lemma releaseToken_own_keys: "own_keys ts \<Longrightarrow> own_keys (snd (releaseToken p c ts))"
  by (simp add: releaseToken_def tokens_delete_own_keys split: option.splits)

lemma on_event_own_keys:
  assumes "own_keys (tokens s)"
  shows "own_keys (tokens (fst (on_event now a currentRoom ev s)))"
proof (cases ev)
  case (RequestToken p)
  with assms grantToken_own_keys [of "tokens s" now p a] show ?thesis
    by (auto simp: request_token_def split: option.splits prod.splits)
next
  case (ReleaseToken p)
  with assms releaseToken_own_keys [of "tokens s" p a] show ?thesis
    by (auto simp: release_token_def split: option.splits prod.splits)
next
  case (MovePiece p x y u)
  with assms hasAuthority_own_keys [of "tokens s" now p a] show ?thesis
    by (auto simp: move_piece_def Let_def split: option.splits prod.splits)
next
  case (AddPiece p u x y)
  with assms grantToken_own_keys [of "tokens s" now p a] show ?thesis
    by (auto simp: add_piece_def Let_def split: option.splits)
next
  case (RemovePiece p)
  with assms hasAuthority_own_keys [of "tokens s" now p a]
    releaseToken_own_keys [of "snd (hasAuthority now p a (tokens s))" p a]
  show ?thesis
    by (auto simp: remove_piece_def Let_def split: option.splits prod.splits)
qed




















text \<open>
  In the room server a token granted on the key \<open>__proto__\<close> is not an own key of the
  map, so the disconnect handler does not see it: it is neither released nor announced.
\<close>

lemma disconnect_proto_example:
  "holds ''X'' proto_by_X ''__proto__''
   \<and> disconnect ''X'' (Some ''r'') \<lparr>tokens = proto_by_X, store = \<lparr>files = Map.empty, writable = True\<rparr>\<rparr>
       = Inr (\<lparr>tokens = proto_by_X, store = \<lparr>files = Map.empty, writable = True\<rparr>\<rparr>,
              [(ToRoomOthers ''r'' ''X'', PlayerLeft ''X'')])"
  by (simp add: holds_def tokens_get_def disconnect_def tokens_keys_def inRoom_def)

end
